theory Spec2Isabelle
  imports Complex_Main
begin

section \<open>JavaScript values used by the services\<close>

text \<open>
  A Node \<open>Buffer\<close> is a list of bytes; an Isabelle \<open>char\<close> is exactly one byte.
  A JavaScript string is modelled by the list of its code units, restricted to the
  range 0..255 (the helper processes print ASCII markers and paths).
\<close>

type_synonym byte = char
type_synonym Buffer = "byte list"
type_synonym path = string

text \<open>
  The error object that \<open>child_process.exec\<close> hands to its callback: the process
  could not be spawned (helper missing), it was killed by the \<open>timeout\<close> option,
  it ended with a non-zero exit status, or it wrote more than \<open>maxBuffer\<close> to its
  output.
\<close>

datatype exec_error = SpawnFailed | TimedOut | ExitStatus nat | MaxBufferExceeded

datatype js_error =
    ExecException exec_error
  | FsException string
  | JsError string

text \<open>The settled state of a promise: resolved with a value or rejected with an error.\<close>

datatype 'a promise = Resolved 'a | Rejected js_error

text \<open>\<open>interface ImageData { buffer: Buffer; format: string }\<close>,
  \<open>type ClipboardResult = ImageData | null\<close> (\<open>None\<close> is \<open>null\<close>).\<close>

record ImageData =
  buffer :: Buffer
  format :: string

type_synonym ClipboardResult = "ImageData option"

subsection \<open>child_process.exec\<close>

text \<open>
  No call of \<open>exec\<close> in clipboard.ts passes the option \<open>maxBuffer\<close>, so its default
  of 1024 * 1024 bytes holds: a process that exits normally after writing more than that
  to stdout is reported to the callback as an error. \<open>exec\<close> takes what the process
  did (it failed, or it exited normally with this stdout) to what the callback gets.
\<close>

definition maxBuffer :: nat where
  "maxBuffer = 1024 * 1024"

definition exec :: "exec_error + Buffer \<Rightarrow> exec_error + Buffer" where
  "exec run =
     (case run of
        Inl error \<Rightarrow> Inl error
      | Inr stdout \<Rightarrow> if length stdout > maxBuffer then Inl MaxBufferExceeded else Inr stdout)"

subsection \<open>String.prototype.trim and startsWith\<close>

text \<open>
  \<open>trim\<close> strips white space and line terminators from both ends; among the code
  units up to 255 these are TAB, LF, VT, FF, CR, SP and NBSP.
\<close>

definition isWhiteSpace :: "char \<Rightarrow> bool" where
  "isWhiteSpace c \<longleftrightarrow> (of_char c :: nat) \<in> {9, 10, 11, 12, 13, 32, 160}"

definition trim :: "string \<Rightarrow> string" where
  "trim s = rev (dropWhile isWhiteSpace (rev (dropWhile isWhiteSpace s)))"

definition startsWith :: "string \<Rightarrow> string \<Rightarrow> bool" where
  "startsWith s p \<longleftrightarrow> take (length p) s = p"

section \<open>The file system seen by \<open>fs\<close>\<close>

text \<open>
  A disk maps paths to nodes. \<open>fs\<close> is a library of the platform, not code of the
  repository: a removal throws when the path is absent, and otherwise when the
  environment says so. The sets \<open>unlink_fails\<close> and \<open>rmdir_fails\<close> stand for every
  such reason (a file held open, missing permission, a directory that is not empty, a
  node of the wrong kind), \<open>read_fails\<close> for a regular file that cannot be read.
\<close>

datatype node = FileNode Buffer | DirNode

record filesystem =
  nodes :: "path \<rightharpoonup> node"
  unlink_fails :: "path set"
  rmdir_fails :: "path set"
  read_fails :: "path set"

definition existsSync :: "filesystem \<Rightarrow> path \<Rightarrow> bool" where
  "existsSync fs p \<longleftrightarrow> nodes fs p \<noteq> None"

definition readFileSync :: "filesystem \<Rightarrow> path \<Rightarrow> js_error + Buffer" where
  "readFileSync fs p =
     (case nodes fs p of
        Some (FileNode b) \<Rightarrow>
          if p \<in> read_fails fs then Inl (FsException ''EACCES'') else Inr b
      | Some DirNode \<Rightarrow> Inl (FsException ''EISDIR'')
      | None \<Rightarrow> Inl (FsException ''ENOENT''))"

definition unlinkSync :: "filesystem \<Rightarrow> path \<Rightarrow> js_error + filesystem" where
  "unlinkSync fs p =
     (if nodes fs p = None then Inl (FsException ''ENOENT'')
      else if p \<in> unlink_fails fs then Inl (FsException ''EPERM'')
      else Inr (fs\<lparr>nodes := (nodes fs)(p := None)\<rparr>))"

definition rmdirSync :: "filesystem \<Rightarrow> path \<Rightarrow> js_error + filesystem" where
  "rmdirSync fs p =
     (if nodes fs p = None then Inl (FsException ''ENOENT'')
      else if p \<in> rmdir_fails fs then Inl (FsException ''ENOTEMPTY'')
      else Inr (fs\<lparr>nodes := (nodes fs)(p := None)\<rparr>))"

definition mkdirNode :: "filesystem \<Rightarrow> path \<Rightarrow> filesystem" where
  "mkdirNode fs p = fs\<lparr>nodes := (nodes fs)(p \<mapsto> DirNode)\<rparr>"

section \<open>clipboard.ts\<close>

subsection \<open>ManagedTempFile\<close>

record ManagedTempFile =
  filePath :: path
  dirPath :: path

definition getPath :: "ManagedTempFile \<Rightarrow> path" where
  "getPath t = filePath t"

text \<open>
  \<open>dispose\<close>: both removals sit in one \<open>try\<close> block whose \<open>catch\<close> is empty
  (``Best effort cleanup - don't throw''), so a throwing \<open>unlinkSync\<close> also skips
  the \<open>rmdirSync\<close>.
\<close>

definition dispose :: "ManagedTempFile \<Rightarrow> filesystem \<Rightarrow> filesystem" where
  "dispose t fs =
     (case (if existsSync fs (filePath t) then unlinkSync fs (filePath t) else Inr fs) of
        Inl e \<Rightarrow> fs
      | Inr fs1 \<Rightarrow>
          (case (if existsSync fs1 (dirPath t) then rmdirSync fs1 (dirPath t) else Inr fs1) of
             Inl e \<Rightarrow> fs1
           | Inr fs2 \<Rightarrow> fs2))"

subsection \<open>WindowsClipboardService\<close>

text \<open>
  The environment of one call: the outcome of \<open>fs.mkdtempSync\<close> (the fresh directory
  or an exception), the 16 hex digits of \<open>crypto.randomBytes(8)\<close>, the disk before the
  call, and the PowerShell helper, which gets the target path and the disk and yields
  what \<open>exec\<close> passes to its callback (the error, or the text of stdout, a marker of
  a few characters) together with the disk it leaves behind.
  Nothing is assumed about the helper: it may print the success marker and leave no
  file, or any file.
\<close>

record windows_env =
  mkdtemp :: "js_error + path"
  randomHex :: string
  powershell :: "path \<Rightarrow> filesystem \<Rightarrow> (exec_error + string) \<times> filesystem"
  disk :: filesystem

definition path_join :: "path \<Rightarrow> string \<Rightarrow> path" where
  "path_join d n = d @ [CHR 0x5C] @ n"

definition createTempFile :: "windows_env \<Rightarrow> js_error + (ManagedTempFile \<times> filesystem)" where
  "createTempFile env =
     (case mkdtemp env of
        Inl e \<Rightarrow> Inl e
      | Inr tempDir \<Rightarrow>
          Inr (\<lparr>filePath = path_join tempDir (''clipboard-'' @ randomHex env @ ''.png''),
                dirPath = tempDir\<rparr>,
               mkdirNode (disk env) tempDir))"

definition executeClipboardCommand ::
  "windows_env \<Rightarrow> path \<Rightarrow> filesystem \<Rightarrow> bool promise \<times> filesystem" where
  "executeClipboardCommand env p fs =
     (case powershell env p fs of
        (Inl error, fs') \<Rightarrow> (Rejected (ExecException error), fs')
      | (Inr stdout, fs') \<Rightarrow> (Resolved (startsWith (trim stdout) ''success''), fs'))"

text \<open>The \<open>try\<close> block of \<open>getImage\<close>.\<close>

definition Windows_getImage_try ::
  "windows_env \<Rightarrow> ManagedTempFile \<Rightarrow> filesystem \<Rightarrow> ClipboardResult promise \<times> filesystem" where
  "Windows_getImage_try env tempFile fs =
     (case executeClipboardCommand env (getPath tempFile) fs of
        (Rejected e, fs') \<Rightarrow> (Rejected e, fs')
      | (Resolved hasImage, fs') \<Rightarrow>
          if \<not> hasImage \<or> \<not> existsSync fs' (getPath tempFile) then (Resolved None, fs')
          else
            (case readFileSync fs' (getPath tempFile) of
               Inl e \<Rightarrow> (Rejected e, fs')
             | Inr buf \<Rightarrow> (Resolved (Some \<lparr>buffer = buf, format = ''png''\<rparr>), fs')))"

text \<open>\<open>getImage\<close>: \<open>createTempFile\<close> runs before the \<open>try\<close>; \<open>finally\<close> disposes.\<close>

definition Windows_getImage :: "windows_env \<Rightarrow> ClipboardResult promise \<times> filesystem" where
  "Windows_getImage env =
     (case createTempFile env of
        Inl e \<Rightarrow> (Rejected e, disk env)
      | Inr (tempFile, fs) \<Rightarrow>
          (case Windows_getImage_try env tempFile fs of
             (r, fs') \<Rightarrow> (r, dispose tempFile fs')))"

subsection \<open>LinuxClipboardService\<close>

text \<open>
  What a command line does when the shell runs it: the tool fails, or it exits normally
  having written these bytes to stdout. \<open>executeCommand\<close> runs it through \<open>exec\<close>
  with \<open>encoding: 'buffer'\<close> and a timeout, and without \<open>maxBuffer\<close>.
\<close>

type_synonym shell = "string \<Rightarrow> exec_error + Buffer"

definition executeCommand :: "shell \<Rightarrow> string \<Rightarrow> Buffer promise" where
  "executeCommand sh command =
     (case exec (sh command) of
        Inl error \<Rightarrow> Rejected (ExecException error)
      | Inr stdout \<Rightarrow> Resolved stdout)"

fun Linux_getImage_loop :: "shell \<Rightarrow> string list \<Rightarrow> ClipboardResult" where
  "Linux_getImage_loop sh [] = None"
| "Linux_getImage_loop sh (command # commands) =
     (case executeCommand sh command of
        Resolved buf \<Rightarrow>
          if length buf > 0 then Some \<lparr>buffer = buf, format = ''png''\<rparr>
          else Linux_getImage_loop sh commands
      | Rejected e \<Rightarrow> Linux_getImage_loop sh commands)"

definition Linux_commands :: "string list" where
  "Linux_commands = [''xclip -selection clipboard -t image/png -o'', ''wl-paste -t image/png'']"

definition Linux_getImage :: "shell \<Rightarrow> ClipboardResult promise" where
  "Linux_getImage sh = Resolved (Linux_getImage_loop sh Linux_commands)"

subsection \<open>MacOSClipboardService\<close>

definition MacOS_getImage :: "shell \<Rightarrow> ClipboardResult promise" where
  "MacOS_getImage sh =
     (case executeCommand sh ''pbpaste -Prefer png'' of
        Resolved buf \<Rightarrow>
          if length buf > 0 then Resolved (Some \<lparr>buffer = buf, format = ''png''\<rparr>)
          else Resolved None
      | Rejected e \<Rightarrow> Resolved None)"

subsection \<open>MacOSClipboardService as revised for release 1.0.1\<close>

text \<open>
  The repository also holds the revision of \<open>MacOSClipboardService\<close> announced by the
  changelog entry 1.0.1 (``multi-strategy clipboard access''; its text follows the
  changelog): an AppleScript strategy that leaves the image in a temporary file and
  prints its path, then a \<open>pbpaste\<close> fallback over three type identifiers. It is a
  sibling of \<open>MacOS_getImage\<close> above. The script's output is ASCII, on which
  \<open>toString\<close> of a buffer is the identity; the messages of the errors are shortened.
\<close>

record macos_env =
  osascript :: "filesystem \<Rightarrow> (exec_error + Buffer) \<times> filesystem"
  pbpaste :: shell
  mac_disk :: filesystem

definition executeAppleScript ::
  "macos_env \<Rightarrow> filesystem \<Rightarrow> Buffer promise \<times> filesystem" where
  "executeAppleScript env fs =
     (case osascript env fs of
        (run, fs') \<Rightarrow>
          (case exec run of
             Inl error \<Rightarrow> (Rejected (JsError ''AppleScript error''), fs')
           | Inr stdout \<Rightarrow> (Resolved stdout, fs')))"

definition getImageViaAppleScript ::
  "macos_env \<Rightarrow> filesystem \<Rightarrow> Buffer promise \<times> filesystem" where
  "getImageViaAppleScript env fs =
     (case executeAppleScript env fs of
        (Rejected e, fs') \<Rightarrow> (Rejected e, fs')
      | (Resolved result, fs') \<Rightarrow>
          (let output = trim result in
           if startsWith output ''ERROR:'' then (Rejected (JsError (drop 6 output)), fs')
           else
             (case readFileSync fs' output of
                Inl e \<Rightarrow> (Rejected (JsError ''Failed to read temp file''), fs')
              | Inr buf \<Rightarrow>
                  (case unlinkSync fs' output of
                     Inl e \<Rightarrow> (Rejected (JsError ''Failed to read temp file''), fs')
                   | Inr fs'' \<Rightarrow> (Resolved buf, fs'')))))"

definition getImageViaPbpaste :: "shell \<Rightarrow> string \<Rightarrow> Buffer promise" where
  "getImageViaPbpaste sh uti =
     (case exec (sh (''pbpaste -Prefer '' @ uti)) of
        Inl error \<Rightarrow> Rejected (JsError ''Command failed'')
      | Inr stdout \<Rightarrow> Resolved stdout)"

definition MacOS_formats :: "(string \<times> string) list" where
  "MacOS_formats = [(''public.png'', ''png''), (''public.tiff'', ''tiff''), (''public.jpeg'', ''jpeg'')]"

fun MacOS_pbpaste_loop :: "shell \<Rightarrow> (string \<times> string) list \<Rightarrow> ClipboardResult" where
  "MacOS_pbpaste_loop sh [] = None"
| "MacOS_pbpaste_loop sh ((uti, fmt) # formats) =
     (case getImageViaPbpaste sh uti of
        Resolved buf \<Rightarrow>
          if length buf > 0 then Some \<lparr>buffer = buf, format = fmt\<rparr>
          else MacOS_pbpaste_loop sh formats
      | Rejected e \<Rightarrow> MacOS_pbpaste_loop sh formats)"

definition MacOS_getImage_v101 :: "macos_env \<Rightarrow> ClipboardResult promise \<times> filesystem" where
  "MacOS_getImage_v101 env =
     (case getImageViaAppleScript env (mac_disk env) of
        (Resolved buf, fs) \<Rightarrow>
          if length buf > 0 then (Resolved (Some \<lparr>buffer = buf, format = ''png''\<rparr>), fs)
          else (Resolved (MacOS_pbpaste_loop (pbpaste env) MacOS_formats), fs)
      | (Rejected e, fs) \<Rightarrow> (Resolved (MacOS_pbpaste_loop (pbpaste env) MacOS_formats), fs))"

section \<open>JavaScript numbers\<close>

text \<open>
  A \<open>number\<close> is a finite double, \<open>NaN\<close> or an infinity. A finite double is modelled by
  the real it denotes and \<open>+\<close>, \<open>-\<close>, \<open>*\<close> are exact: IEEE rounding and overflow are left
  out. Comparison and \<open>Math.floor\<close> are exact on doubles, and so is arithmetic on the
  integers below \<open>2^53\<close>, which covers epoch milliseconds and validated day counts.
\<close>

datatype number = Finite real | NaN | PosInfinity | NegInfinity

fun number_less :: "number \<Rightarrow> number \<Rightarrow> bool" where
  "number_less (Finite a) (Finite b) = (a < b)"
| "number_less (Finite a) PosInfinity = True"
| "number_less NegInfinity (Finite b) = True"
| "number_less NegInfinity PosInfinity = True"
| "number_less _ _ = False"

definition number_le :: "number \<Rightarrow> number \<Rightarrow> bool" where
  "number_le a b \<longleftrightarrow> number_less a b \<or> (a = b \<and> a \<noteq> NaN)"

fun number_times :: "number \<Rightarrow> number \<Rightarrow> number" where
  "number_times (Finite a) (Finite b) = Finite (a * b)"
| "number_times NaN _ = NaN"
| "number_times _ NaN = NaN"
| "number_times (Finite a) PosInfinity =
     (if a = 0 then NaN else if 0 < a then PosInfinity else NegInfinity)"
| "number_times (Finite a) NegInfinity =
     (if a = 0 then NaN else if 0 < a then NegInfinity else PosInfinity)"
| "number_times PosInfinity (Finite b) =
     (if b = 0 then NaN else if 0 < b then PosInfinity else NegInfinity)"
| "number_times NegInfinity (Finite b) =
     (if b = 0 then NaN else if 0 < b then NegInfinity else PosInfinity)"
| "number_times PosInfinity PosInfinity = PosInfinity"
| "number_times NegInfinity NegInfinity = PosInfinity"
| "number_times PosInfinity NegInfinity = NegInfinity"
| "number_times NegInfinity PosInfinity = NegInfinity"

fun number_minus :: "number \<Rightarrow> number \<Rightarrow> number" where
  "number_minus (Finite a) (Finite b) = Finite (a - b)"
| "number_minus NaN _ = NaN"
| "number_minus _ NaN = NaN"
| "number_minus (Finite a) PosInfinity = NegInfinity"
| "number_minus (Finite a) NegInfinity = PosInfinity"
| "number_minus PosInfinity PosInfinity = NaN"
| "number_minus NegInfinity NegInfinity = NaN"
| "number_minus PosInfinity _ = PosInfinity"
| "number_minus NegInfinity _ = NegInfinity"

fun Math_floor :: "number \<Rightarrow> number" where
  "Math_floor (Finite a) = Finite (of_int \<lfloor>a\<rfloor>)"
| "Math_floor n = n"

fun Number_isInteger :: "number \<Rightarrow> bool" where
  "Number_isInteger (Finite a) = (of_int \<lfloor>a\<rfloor> = a)"
| "Number_isInteger _ = False"

text \<open>A value of type \<open>any\<close>, as far as \<open>typeof\<close> tells its kinds apart.\<close>

datatype jsvalue =
    Undefined
  | Null
  | Boolean bool
  | Number number
  | String string
  | Object

section \<open>configuration.ts\<close>

text \<open>\<open>vscode.workspace.getConfiguration(section)\<close>: what \<open>get(key)\<close> returns.\<close>

type_synonym WorkspaceConfiguration = "string \<Rightarrow> jsvalue"

definition defaults_retentionDays :: number where
  "defaults_retentionDays = Finite 30"

definition validateRetentionDays :: "jsvalue \<Rightarrow> number" where
  "validateRetentionDays v =
     (case v of
        Number n \<Rightarrow>
          if number_less (Finite 0) n \<and> number_le n (Finite 365) then Math_floor n
          else defaults_retentionDays
      | _ \<Rightarrow> defaults_retentionDays)"

definition getRetentionDays :: "WorkspaceConfiguration \<Rightarrow> number" where
  "getRetentionDays config = validateRetentionDays (config ''retentionDays'')"

text \<open>\<open>ConfigValidator.isValidRetentionDays\<close>, the validity test of the same file.\<close>

definition isValidRetentionDays :: "number \<Rightarrow> bool" where
  "isValidRetentionDays n \<longleftrightarrow>
     Number_isInteger n \<and> number_less (Finite 0) n \<and> number_le n (Finite 365)"

section \<open>fileManager.ts\<close>

text \<open>\<open>vscode.FileType\<close>; a symbolic link carries the type of its target as well.\<close>

datatype FileType =
    Unknown
  | File
  | Directory
  | SymbolicLink
  | SymbolicLinkToFile
  | SymbolicLinkToDirectory

subsection \<open>Decimal numerals\<close>

definition isDigit :: "char \<Rightarrow> bool" where
  "isDigit c \<longleftrightarrow> 48 \<le> (of_char c :: nat) \<and> (of_char c :: nat) \<le> 57"

definition digitValue :: "char \<Rightarrow> nat" where
  "digitValue c = of_char c - 48"

definition decimal :: "string \<Rightarrow> nat" where
  "decimal ds = foldl (\<lambda>acc c. acc * 10 + digitValue c) 0 ds"

text \<open>
  \<open>parseInt(s, 10)\<close> on a string that starts with a digit or is empty (the only
  strings the capture group \<open>(\d+)\<close> hands over): the leading digits, or \<open>NaN\<close>.
\<close>

definition parseInt :: "string \<Rightarrow> number" where
  "parseInt s =
     (let ds = takeWhile isDigit s in if ds = [] then NaN else Finite (real (decimal ds)))"

text \<open>
  Number-to-string of a non-negative integer below \<open>10^21\<close> (a time value never
  exceeds \<open>8.64 * 10^15\<close>): its decimal numeral.
\<close>

fun toString :: "nat \<Rightarrow> string" where
  "toString n =
     (if n < 10 then [char_of (48 + n)]
      else toString (n div 10) @ [char_of (48 + n mod 10)])"

declare toString.simps [simp del]

definition generateFileName :: "nat \<Rightarrow> string \<Rightarrow> string" where
  "generateFileName timestamp fmt = ''image_'' @ toString timestamp @ ''.'' @ fmt"

subsection \<open>isOldImageFile\<close>

text \<open>
  \<open>fileName.match(/^image_(\d+)\./)\<close>, giving the capture group. The greedy \<open>\d+\<close>
  takes the whole run of digits: a shorter run is followed by a digit, never by the dot.
\<close>

definition match_image :: "string \<Rightarrow> string option" where
  "match_image fileName =
     (if startsWith fileName ''image_'' then
        (let rest = drop 6 fileName; ds = takeWhile isDigit rest in
         case dropWhile isDigit rest of
           [] \<Rightarrow> None
         | c # _ \<Rightarrow> if ds \<noteq> [] \<and> c = CHR ''.'' then Some ds else None)
      else None)"

definition isOldImageFile :: "string \<Rightarrow> number \<Rightarrow> bool" where
  "isOldImageFile fileName cutoffTime =
     (case match_image fileName of
        None \<Rightarrow> False
      | Some m \<Rightarrow> number_less (parseInt m) cutoffTime)"

subsection \<open>cleanupOldImages\<close>

text \<open>
  The images directory as one call sees it: whether a workspace folder is open
  (\<open>getImagesDirectory\<close> throws otherwise), what \<open>readDirectory\<close> yields, and the names
  on which \<open>fs.delete\<close> rejects.
\<close>

record images_dir =
  hasWorkspaceFolder :: bool
  listing :: "js_error + (string \<times> FileType) list"
  delete_fails :: "string set"

definition cutoffTime :: "number \<Rightarrow> nat \<Rightarrow> number" where
  "cutoffTime retentionDays now =
     number_minus (Finite (real now))
       (number_times (number_times (number_times (number_times retentionDays
          (Finite 24)) (Finite 60)) (Finite 60)) (Finite 1000))"

definition toDelete :: "number \<Rightarrow> (string \<times> FileType) list \<Rightarrow> string list" where
  "toDelete cutoff files =
     map fst (filter (\<lambda>(fileName, fileType).
        fileType = File \<and> fileName \<noteq> ''.gitignore'' \<and> isOldImageFile fileName cutoff) files)"

text \<open>
  \<open>cleanupOldImages\<close>, giving the directory after the call. A delete that rejects is
  caught and only logged, the others remove their entry; an exception of
  \<open>getImagesDirectory\<close> or \<open>readDirectory\<close> is caught as well. The promise always
  resolves.
\<close>

definition cleanupOldImages :: "number \<Rightarrow> nat \<Rightarrow> images_dir \<Rightarrow> images_dir" where
  "cleanupOldImages retentionDays now dir =
     (if retentionDays = Finite 0 then dir
      else if \<not> hasWorkspaceFolder dir then dir
      else
        (case listing dir of
           Inl e \<Rightarrow> dir
         | Inr files \<Rightarrow>
             (let deleted = toDelete (cutoffTime retentionDays now) files in
              dir\<lparr>listing := Inr (filter (\<lambda>(fileName, fileType).
                \<not> (fileName \<in> set deleted \<and> fileName \<notin> delete_fails dir)) files)\<rparr>)))"

text \<open>The names the same call hands to \<open>vscode.workspace.fs.delete\<close>, in order.\<close>

definition deleteCalls :: "number \<Rightarrow> nat \<Rightarrow> images_dir \<Rightarrow> string list" where
  "deleteCalls retentionDays now dir =
     (if retentionDays = Finite 0 then []
      else if \<not> hasWorkspaceFolder dir then []
      else
        (case listing dir of
           Inl e \<Rightarrow> []
         | Inr files \<Rightarrow> toDelete (cutoffTime retentionDays now) files))"

section \<open>Inputs used by the closed theorems\<close>

text \<open>Concrete disks, helper processes, clipboards and directories.\<close>

definition empty_disk :: filesystem where
  "empty_disk = \<lparr>nodes = Map.empty, unlink_fails = {}, rmdir_fails = {}, read_fails = {}\<rparr>"

text \<open>A PowerShell run that prints \<open>out\<close> and leaves a file with the given content.\<close>

definition script_saves ::
  "Buffer \<Rightarrow> string \<Rightarrow> path \<Rightarrow> filesystem \<Rightarrow> (exec_error + string) \<times> filesystem" where
  "script_saves content out p fs =
     (Inr out, fs\<lparr>nodes := (nodes fs)(p \<mapsto> FileNode content)\<rparr>)"

text \<open>The same, with the file still held open, so that unlinking it throws.\<close>

definition script_saves_locked ::
  "Buffer \<Rightarrow> string \<Rightarrow> path \<Rightarrow> filesystem \<Rightarrow> (exec_error + string) \<times> filesystem" where
  "script_saves_locked content out p fs =
     (Inr out, fs\<lparr>nodes := (nodes fs)(p \<mapsto> FileNode content), unlink_fails := {p}\<rparr>)"

definition win_env_empty_file :: windows_env where
  "win_env_empty_file =
     \<lparr>mkdtemp = Inr ''T'', randomHex = ''00112233445566ff'',
      powershell = script_saves [] (''success'' @ [CHR 0x0A]), disk = empty_disk\<rparr>"

definition win_env_timeout :: windows_env where
  "win_env_timeout =
     \<lparr>mkdtemp = Inr ''T'', randomHex = ''00112233445566ff'',
      powershell = (\<lambda>p fs. (Inl TimedOut, fs)), disk = empty_disk\<rparr>"

definition win_env_no_image :: windows_env where
  "win_env_no_image =
     \<lparr>mkdtemp = Inr ''T'', randomHex = ''00112233445566ff'',
      powershell = (\<lambda>p fs. (Inr (''no_image'' @ [CHR 0x0A]), fs)), disk = empty_disk\<rparr>"

definition win_env_file_absent :: windows_env where
  "win_env_file_absent =
     \<lparr>mkdtemp = Inr ''T'', randomHex = ''00112233445566ff'',
      powershell = (\<lambda>p fs. (Inr (''success'' @ [CHR 0x0A]), fs)), disk = empty_disk\<rparr>"

definition win_env_locked :: windows_env where
  "win_env_locked =
     \<lparr>mkdtemp = Inr ''T'', randomHex = ''00112233445566ff'',
      powershell = script_saves_locked ''PNG'' (''success'' @ [CHR 0x0A]), disk = empty_disk\<rparr>"

text \<open>A macOS clipboard that gives nothing for PNG and three bytes for TIFF.\<close>

definition tiff_only_shell :: shell where
  "tiff_only_shell c = (if c = ''pbpaste -Prefer public.tiff'' then Inr ''II*'' else Inr [])"

definition tiff_only_env :: macos_env where
  "tiff_only_env =
     \<lparr>osascript = (\<lambda>fs. (Inr ''ERROR:sips failed'', fs)),
      pbpaste = tiff_only_shell, mac_disk = empty_disk\<rparr>"

definition config_half_day :: WorkspaceConfiguration where
  "config_half_day key = (if key = ''retentionDays'' then Number (Finite (1 / 2)) else Undefined)"

definition retention_scenario :: "nat \<Rightarrow> images_dir" where
  "retention_scenario now =
     \<lparr>hasWorkspaceFolder = True,
      listing = Inr [(''image_1000.png'', File), (generateFileName now ''png'', File)],
      delete_fails = {}\<rparr>"

definition example_dir :: images_dir where
  "example_dir =
     \<lparr>hasWorkspaceFolder = True,
      listing = Inr [(''.gitignore'', File), (''image_1000.png'', File),
                     (''image_2000.png'', Directory), (''notes.txt'', File)],
      delete_fails = {}\<rparr>"

text \<open>A PNG of one byte more than \<open>maxBuffer\<close>, and Linux tools of which only wl-paste works.\<close>

definition large_image :: Buffer where
  "large_image = replicate 1048577 (CHR ''x'')"

definition wl_paste_large :: shell where
  "wl_paste_large c =
     (if c = ''wl-paste -t image/png'' then Inr large_image else Inl (ExitStatus 1))"

definition win_env_large_file :: windows_env where
  "win_env_large_file =
     \<lparr>mkdtemp = Inr ''T'', randomHex = ''00112233445566ff'',
      powershell = script_saves large_image (''success'' @ [CHR 0x0A]), disk = empty_disk\<rparr>"

text \<open>A macOS machine on which no helper can be spawned.\<close>

definition macos_env_no_helpers :: macos_env where
  "macos_env_no_helpers =
     \<lparr>osascript = (\<lambda>fs. (Inl SpawnFailed, fs)),
      pbpaste = (\<lambda>c. Inl SpawnFailed), mac_disk = empty_disk\<rparr>"

section \<open>The deletion condition in the words of the specification\<close>

text \<open>
  A name matches \<open>image_<digits>.\<close> with digit string \<open>ds\<close>; an entry may be deleted
  when it is a plain file, is not \<open>.gitignore\<close>, and the number its digits denote is
  strictly below the cutoff.
\<close>

definition matches_image_pattern :: "string \<Rightarrow> string \<Rightarrow> bool" where
  "matches_image_pattern name ds \<longleftrightarrow>
     ds \<noteq> [] \<and> (\<forall>c\<in>set ds. isDigit c) \<and> (\<exists>rest. name = ''image_'' @ ds @ ''.'' @ rest)"

definition deletable_entry :: "number \<Rightarrow> string \<times> FileType \<Rightarrow> bool" where
  "deletable_entry cutoff e \<longleftrightarrow>
     snd e = File \<and> fst e \<noteq> ''.gitignore'' \<and>
     (\<exists>ds. matches_image_pattern (fst e) ds \<and> number_less (Finite (real (decimal ds))) cutoff)"

section \<open>Properties of the clipboard services\<close>

subsection \<open>What \<open>exec\<close> hands to the callback\<close>

lemma exec_error: "exec (Inl e) = Inl e"
  by (simp add: exec_def)

lemma exec_small: "length out \<le> maxBuffer \<Longrightarrow> exec (Inr out) = Inr out"
  by (simp add: exec_def)

lemma exec_empty: "exec (Inr []) = Inr []"
  by (simp add: exec_def)

lemma exec_large: "maxBuffer < length out \<Longrightarrow> exec (Inr out) = Inl MaxBufferExceeded"
  by (simp add: exec_def)

lemma exec_Inr: "exec run = Inr out \<Longrightarrow> run = Inr out"
  by (auto simp: exec_def split: sum.splits if_splits)

lemma length_large_image: "length large_image = 1048577"
  by (simp only: large_image_def length_replicate)

lemma large_image_exceeds: "maxBuffer < length large_image"
  by (simp add: length_large_image maxBuffer_def)

subsection \<open>Non-null results\<close>

lemma Linux_loop_nonempty:
  "Linux_getImage_loop sh cs = Some img \<Longrightarrow> buffer img \<noteq> [] \<and> format img = ''png''"
  by (induction cs) (auto simp: executeCommand_def split: sum.splits if_splits)

lemma Linux_getImage_nonempty:
  "Linux_getImage sh = Resolved (Some img) \<Longrightarrow> buffer img \<noteq> [] \<and> format img = ''png''"
  by (auto simp: Linux_getImage_def dest: Linux_loop_nonempty)

lemma MacOS_getImage_nonempty:
  "MacOS_getImage sh = Resolved (Some img) \<Longrightarrow> buffer img \<noteq> [] \<and> format img = ''png''"
  by (auto simp: MacOS_getImage_def executeCommand_def split: sum.splits if_splits)

lemma MacOS_pbpaste_loop_nonempty:
  "MacOS_pbpaste_loop sh fmts = Some img \<Longrightarrow>
     buffer img \<noteq> [] \<and> format img \<in> snd ` set fmts"
  by (induction fmts) (auto simp: getImageViaPbpaste_def split: sum.splits if_splits)

lemma MacOS_getImage_v101_nonempty:
  "fst (MacOS_getImage_v101 env) = Resolved (Some img) \<Longrightarrow>
     buffer img \<noteq> [] \<and> format img \<in> {''png'', ''tiff'', ''jpeg''}"
  by (auto simp: MacOS_getImage_v101_def MacOS_formats_def
      split: prod.splits promise.splits if_splits dest!: MacOS_pbpaste_loop_nonempty)

text \<open>
  C1. Claimed: on every platform a non-null result of \<open>getImage\<close> has a buffer of
  length greater than 0 and a format among png, tiff, jpeg. The Linux and macOS loops
  test \<open>buffer.length > 0\<close> (the lemmas above); the Windows variant returns whatever
  \<open>readFileSync\<close> gives. When the helper prints the success marker and the temporary
  file exists with no bytes, \<open>getImage\<close> resolves to a non-null result whose buffer is
  empty.
\<close>

theorem Windows_getImage_empty_file:
  "fst (Windows_getImage win_env_empty_file)
     = Resolved (Some \<lparr>buffer = [], format = ''png''\<rparr>)"
  by (simp add: Windows_getImage_def createTempFile_def Windows_getImage_try_def
      executeClipboardCommand_def win_env_empty_file_def script_saves_def empty_disk_def
      mkdirNode_def getPath_def path_join_def existsSync_def readFileSync_def
      trim_def isWhiteSpace_def startsWith_def)

subsection \<open>The macOS strategies\<close>

text \<open>
  C2. Claimed: on macOS \<open>getImage\<close> falls back to PNG, then TIFF, then JPEG, so a
  clipboard that yields nothing for PNG and bytes for TIFF never gives null. On such a
  clipboard \<open>MacOSClipboardService.getImage\<close> of clipboard.ts, which runs the single
  command \<open>pbpaste -Prefer png\<close>, resolves to null, while the revision for release 1.0.1
  returns the TIFF bytes with format \<open>tiff\<close>.
\<close>

theorem MacOS_getImage_tiff_only:
  "MacOS_getImage tiff_only_shell = Resolved None \<and>
   fst (MacOS_getImage_v101 tiff_only_env)
     = Resolved (Some \<lparr>buffer = ''II*'', format = ''tiff''\<rparr>)"
  by (simp add: MacOS_getImage_def executeCommand_def tiff_only_shell_def
      MacOS_getImage_v101_def getImageViaAppleScript_def executeAppleScript_def
      tiff_only_env_def trim_def isWhiteSpace_def startsWith_def MacOS_formats_def
      getImageViaPbpaste_def exec_def maxBuffer_def)

subsection \<open>Infrastructure failures\<close>

lemma Windows_getImage_exec_error:
  assumes "mkdtemp env = Inr d"
    and "fst (powershell env (path_join d (''clipboard-'' @ randomHex env @ ''.png''))
                (mkdirNode (disk env) d)) = Inl err"
  shows "fst (Windows_getImage env) = Rejected (ExecException err)"
  using assms
  by (auto simp: Windows_getImage_def createTempFile_def Windows_getImage_try_def
      executeClipboardCommand_def getPath_def split: prod.splits sum.splits)

lemma Windows_getImage_mkdtemp_error:
  "mkdtemp env = Inl e \<Longrightarrow> Windows_getImage env = (Rejected e, disk env)"
  by (simp add: Windows_getImage_def createTempFile_def)

lemma MacOS_getImage_resolves: "\<exists>r. MacOS_getImage sh = Resolved r"
  by (simp add: MacOS_getImage_def split: promise.splits)

lemma MacOS_getImage_v101_resolves: "\<exists>r. fst (MacOS_getImage_v101 env) = Resolved r"
  by (simp add: MacOS_getImage_v101_def split: promise.splits prod.splits)

text \<open>
  C3, as claimed: on Windows and macOS an infrastructure failure during \<open>getImage\<close>
  is surfaced as an error and never returned as null. Counterexample: on macOS, with a
  helper that cannot be spawned, \<open>getImage\<close> resolves to null.
\<close>

theorem MacOS_getImage_spawn_failure:
  "MacOS_getImage (\<lambda>c. Inl SpawnFailed) = Resolved None"
  by (simp add: MacOS_getImage_def executeCommand_def exec_error)

lemma MacOS_getImage_failure:
  "sh ''pbpaste -Prefer png'' = Inl e \<Longrightarrow> MacOS_getImage sh = Resolved None"
  by (simp add: MacOS_getImage_def executeCommand_def exec_error)

lemma MacOS_pbpaste_loop_failure:
  "\<forall>c. \<exists>e. sh c = Inl e \<Longrightarrow> MacOS_pbpaste_loop sh fmts = None"
proof (induction fmts)
  case Nil
  show ?case by simp
next
  case (Cons f fmts)
  obtain uti fmt where f: "f = (uti, fmt)" by (cases f)
  from Cons.prems obtain e where "sh (''pbpaste -Prefer '' @ uti) = Inl e" by blast
  then have "getImageViaPbpaste sh uti = Rejected (JsError ''Command failed'')"
    by (simp add: getImageViaPbpaste_def exec_error)
  with Cons f show ?case by simp
qed

lemma MacOS_getImage_v101_failure:
  assumes "fst (osascript env (mac_disk env)) = Inl e"
    and "\<forall>c. \<exists>e'. pbpaste env c = Inl e'"
  shows "fst (MacOS_getImage_v101 env) = Resolved None"
proof -
  obtain fs' where "osascript env (mac_disk env) = (Inl e, fs')"
    using assms(1) by (cases "osascript env (mac_disk env)") simp
  then have "getImageViaAppleScript env (mac_disk env)
               = (Rejected (JsError ''AppleScript error''), fs')"
    by (simp add: getImageViaAppleScript_def executeAppleScript_def exec_error)
  moreover have "MacOS_pbpaste_loop (pbpaste env) MacOS_formats = None"
    using assms(2) by (rule MacOS_pbpaste_loop_failure)
  ultimately show ?thesis
    by (simp add: MacOS_getImage_v101_def)
qed

text \<open>
  C3, amended: on Windows, when \<open>exec\<close> reports an error for the helper (it cannot be
  spawned, it times out, it exits with a failure status), \<open>getImage\<close> rejects with
  that error. On macOS every command failure is caught: \<open>getImage\<close> never rejects,
  and when its helper fails it resolves to null; so does the revision for release 1.0.1
  when \<open>osascript\<close> and every \<open>pbpaste\<close> call fail.
\<close>

theorem getImage_infrastructure_failure:
  "(mkdtemp env = Inr d \<and>
    fst (powershell env (path_join d (''clipboard-'' @ randomHex env @ ''.png''))
          (mkdirNode (disk env) d)) = Inl err
    \<longrightarrow> fst (Windows_getImage env) = Rejected (ExecException err)) \<and>
   (\<exists>r. MacOS_getImage sh = Resolved r) \<and>
   (\<exists>r. fst (MacOS_getImage_v101 menv) = Resolved r) \<and>
   (sh ''pbpaste -Prefer png'' = Inl e \<longrightarrow> MacOS_getImage sh = Resolved None) \<and>
   (fst (osascript menv (mac_disk menv)) = Inl e' \<and> (\<forall>c. \<exists>e''. pbpaste menv c = Inl e'')
    \<longrightarrow> fst (MacOS_getImage_v101 menv) = Resolved None)"
proof (intro conjI impI)
  assume "mkdtemp env = Inr d \<and>
    fst (powershell env (path_join d (''clipboard-'' @ randomHex env @ ''.png''))
          (mkdirNode (disk env) d)) = Inl err"
  then show "fst (Windows_getImage env) = Rejected (ExecException err)"
    using Windows_getImage_exec_error by blast
next
  show "\<exists>r. MacOS_getImage sh = Resolved r" by (rule MacOS_getImage_resolves)
next
  show "\<exists>r. fst (MacOS_getImage_v101 menv) = Resolved r"
    by (rule MacOS_getImage_v101_resolves)
next
  assume "sh ''pbpaste -Prefer png'' = Inl e"
  then show "MacOS_getImage sh = Resolved None" by (rule MacOS_getImage_failure)
next
  assume "fst (osascript menv (mac_disk menv)) = Inl e' \<and>
    (\<forall>c. \<exists>e''. pbpaste menv c = Inl e'')"
  then show "fst (MacOS_getImage_v101 menv) = Resolved None"
    using MacOS_getImage_v101_failure by blast
qed

theorem getImage_infrastructure_failure_witness:
  "fst (Windows_getImage win_env_timeout) = Rejected (ExecException TimedOut) \<and>
   MacOS_getImage (\<lambda>c. Inl SpawnFailed) = Resolved None \<and>
   fst (MacOS_getImage_v101 macos_env_no_helpers) = Resolved None"
  using getImage_infrastructure_failure
    [of win_env_timeout "''T''" TimedOut "\<lambda>c. Inl SpawnFailed" macos_env_no_helpers
        SpawnFailed SpawnFailed]
  by (simp add: win_env_timeout_def macos_env_no_helpers_def)

subsection \<open>No image on the clipboard\<close>

lemma Windows_getImage_no_marker:
  assumes "mkdtemp env = Inr d"
    and "powershell env (path_join d (''clipboard-'' @ randomHex env @ ''.png''))
           (mkdirNode (disk env) d) = (Inr out, fs')"
    and "\<not> startsWith (trim out) ''success''"
  shows "fst (Windows_getImage env) = Resolved None"
  using assms
  by (simp add: Windows_getImage_def createTempFile_def Windows_getImage_try_def
      executeClipboardCommand_def getPath_def)

lemma Linux_loop_nothing:
  "\<forall>c\<in>set cs. sh c = Inr [] \<or> (\<exists>e. sh c = Inl e) \<Longrightarrow> Linux_getImage_loop sh cs = None"
  by (induction cs) (auto simp: executeCommand_def exec_error exec_empty)

lemma MacOS_getImage_nothing:
  "sh ''pbpaste -Prefer png'' = Inr [] \<or> (\<exists>e. sh ''pbpaste -Prefer png'' = Inl e)
   \<Longrightarrow> MacOS_getImage sh = Resolved None"
  by (auto simp: MacOS_getImage_def executeCommand_def exec_error exec_empty)

lemma MacOS_getImage_v101_nothing:
  assumes "osascript env (mac_disk env) = (Inr out, fs')"
    and "length out \<le> maxBuffer"
    and "startsWith (trim out) ''ERROR:''"
    and "\<forall>c. pbpaste env c = Inr []"
  shows "fst (MacOS_getImage_v101 env) = Resolved None"
proof -
  have "getImageViaAppleScript env (mac_disk env)
          = (Rejected (JsError (drop 6 (trim out))), fs')"
    using assms(1-3)
    by (simp add: getImageViaAppleScript_def executeAppleScript_def exec_small)
  moreover have "MacOS_pbpaste_loop (pbpaste env) MacOS_formats = None"
    using assms(4) by (simp add: MacOS_formats_def getImageViaPbpaste_def exec_empty)
  ultimately show ?thesis
    by (simp add: MacOS_getImage_v101_def)
qed

text \<open>
  C4. When the helper tools run successfully and report no image, \<open>getImage\<close>
  resolves to null and does not reject: on Windows when the trimmed output of the
  script does not start with the success marker, on Linux when both tools print
  nothing, on macOS when \<open>pbpaste\<close> prints nothing.
\<close>

theorem getImage_no_image:
  "(mkdtemp env = Inr d \<and>
    powershell env (path_join d (''clipboard-'' @ randomHex env @ ''.png''))
      (mkdirNode (disk env) d) = (Inr out, fs') \<and>
    \<not> startsWith (trim out) ''success''
    \<longrightarrow> fst (Windows_getImage env) = Resolved None) \<and>
   ((\<forall>c\<in>set Linux_commands. sh c = Inr [])
    \<longrightarrow> Linux_getImage sh = Resolved None) \<and>
   (sh' ''pbpaste -Prefer png'' = Inr []
    \<longrightarrow> MacOS_getImage sh' = Resolved None)"
proof (intro conjI impI)
  assume "mkdtemp env = Inr d \<and>
    powershell env (path_join d (''clipboard-'' @ randomHex env @ ''.png''))
      (mkdirNode (disk env) d) = (Inr out, fs') \<and>
    \<not> startsWith (trim out) ''success''"
  then show "fst (Windows_getImage env) = Resolved None"
    using Windows_getImage_no_marker by blast
next
  assume "\<forall>c\<in>set Linux_commands. sh c = Inr []"
  then have "Linux_getImage_loop sh Linux_commands = None"
    by (intro Linux_loop_nothing) blast
  then show "Linux_getImage sh = Resolved None"
    by (simp add: Linux_getImage_def)
next
  assume "sh' ''pbpaste -Prefer png'' = Inr []"
  then show "MacOS_getImage sh' = Resolved None"
    by (simp add: MacOS_getImage_nothing)
qed

theorem getImage_no_image_witness:
  "fst (Windows_getImage win_env_no_image) = Resolved None \<and>
   Linux_getImage (\<lambda>c. Inr []) = Resolved None \<and>
   MacOS_getImage (\<lambda>c. Inr []) = Resolved None"
  using getImage_no_image [of win_env_no_image "''T''" "''no_image'' @ [CHR 0x0A]"
      "mkdirNode empty_disk ''T''" "\<lambda>c. Inr []" "\<lambda>c. Inr []"]
  by (simp add: win_env_no_image_def trim_def isWhiteSpace_def startsWith_def)

text \<open>
  C5. On Windows, when the output of the script starts with the success marker and
  the temporary file does not exist when it is checked, \<open>getImage\<close> resolves to null.
\<close>

theorem Windows_getImage_file_absent:
  assumes "mkdtemp env = Inr d"
    and "powershell env (path_join d (''clipboard-'' @ randomHex env @ ''.png''))
           (mkdirNode (disk env) d) = (Inr out, fs')"
    and "startsWith (trim out) ''success''"
    and "\<not> existsSync fs' (path_join d (''clipboard-'' @ randomHex env @ ''.png''))"
  shows "fst (Windows_getImage env) = Resolved None"
  using assms
  by (simp add: Windows_getImage_def createTempFile_def Windows_getImage_try_def
      executeClipboardCommand_def getPath_def)

theorem Windows_getImage_file_absent_witness:
  "fst (Windows_getImage win_env_file_absent) = Resolved None"
  using Windows_getImage_file_absent [of win_env_file_absent "''T''"
      "''success'' @ [CHR 0x0A]" "mkdirNode empty_disk ''T''"]
  by (simp add: win_env_file_absent_def trim_def isWhiteSpace_def startsWith_def
      existsSync_def mkdirNode_def empty_disk_def path_join_def)

subsection \<open>The Linux fallback\<close>

text \<open>
  When xclip fails and wl-paste exits normally with a non-empty output of at most
  \<open>maxBuffer\<close> bytes, \<open>getImage\<close> resolves to exactly these bytes with format \<open>png\<close>.
\<close>

lemma Linux_getImage_second_tool_bounded:
  assumes "sh ''xclip -selection clipboard -t image/png -o'' = Inl e"
    and "sh ''wl-paste -t image/png'' = Inr out"
    and "out \<noteq> []" and "length out \<le> maxBuffer"
  shows "Linux_getImage sh = Resolved (Some \<lparr>buffer = out, format = ''png''\<rparr>)"
  using assms
  by (simp add: Linux_getImage_def Linux_commands_def executeCommand_def exec_error exec_small)

lemma Windows_getImage_large_file:
  "fst (Windows_getImage win_env_large_file)
     = Resolved (Some \<lparr>buffer = large_image, format = ''png''\<rparr>)"
  by (simp add: Windows_getImage_def createTempFile_def Windows_getImage_try_def
      executeClipboardCommand_def win_env_large_file_def script_saves_def empty_disk_def
      mkdirNode_def getPath_def path_join_def existsSync_def readFileSync_def
      trim_def isWhiteSpace_def startsWith_def)

text \<open>
  C6. Claimed: on Linux, when xclip fails with a process error and wl-paste succeeds with
  non-empty output, \<open>getImage\<close> returns exactly the bytes of wl-paste with format \<open>png\<close>.
  \<open>executeCommand\<close> calls \<open>exec\<close> without \<open>maxBuffer\<close>: when wl-paste exits normally
  after writing an image of 1048577 bytes, \<open>exec\<close> reports an error, the loop takes it
  for a failed tool and \<open>getImage\<close> resolves to null.
\<close>

theorem Linux_getImage_large_output:
  "wl_paste_large ''xclip -selection clipboard -t image/png -o'' = Inl (ExitStatus 1) \<and>
   wl_paste_large ''wl-paste -t image/png'' = Inr large_image \<and>
   length large_image = 1048577 \<and>
   Linux_getImage wl_paste_large = Resolved None"
proof -
  have "executeCommand wl_paste_large ''wl-paste -t image/png''
          = Rejected (ExecException MaxBufferExceeded)"
    by (simp add: executeCommand_def wl_paste_large_def exec_large large_image_exceeds)
  moreover have "executeCommand wl_paste_large ''xclip -selection clipboard -t image/png -o''
          = Rejected (ExecException (ExitStatus 1))"
    by (simp add: executeCommand_def wl_paste_large_def exec_error)
  ultimately have "Linux_getImage wl_paste_large = Resolved None"
    by (simp add: Linux_getImage_def Linux_commands_def)
  then show ?thesis
    by (simp add: wl_paste_large_def length_large_image)
qed

subsection \<open>Cleanup of the temporary file\<close>

lemma dispose_removes:
  assumes "filePath t \<notin> unlink_fails fs" and "dirPath t \<notin> rmdir_fails fs"
  shows "\<not> existsSync (dispose t fs) (filePath t) \<and> \<not> existsSync (dispose t fs) (dirPath t)"
  using assms
  by (auto simp: dispose_def existsSync_def unlinkSync_def rmdirSync_def split: if_splits)

lemma Windows_getImage_try_disk:
  "snd (Windows_getImage_try env t fs) = snd (powershell env (getPath t) fs)"
  by (simp add: Windows_getImage_try_def executeClipboardCommand_def
      split: prod.splits sum.splits promise.splits)

text \<open>
  C7, as claimed: after every execution of the Windows \<open>getImage\<close> the temporary file
  and its directory are gone. Counterexample: the helper saves the image and the file
  cannot be unlinked; \<open>dispose\<close> swallows the exception, \<open>getImage\<close> resolves with the
  image, and both the file and the directory are still on disk.
\<close>

theorem Windows_getImage_artifact_remains:
  "fst (Windows_getImage win_env_locked)
     = Resolved (Some \<lparr>buffer = ''PNG'', format = ''png''\<rparr>) \<and>
   existsSync (snd (Windows_getImage win_env_locked))
     (path_join ''T'' ''clipboard-00112233445566ff.png'') \<and>
   existsSync (snd (Windows_getImage win_env_locked)) ''T''"
  by (simp add: Windows_getImage_def createTempFile_def Windows_getImage_try_def
      executeClipboardCommand_def win_env_locked_def script_saves_locked_def empty_disk_def
      mkdirNode_def getPath_def path_join_def existsSync_def readFileSync_def
      trim_def isWhiteSpace_def startsWith_def dispose_def unlinkSync_def)

text \<open>
  C7, amended: on every exit path of the Windows \<open>getImage\<close> (image, null or
  rejection) \<open>dispose\<close> runs before the call settles; provided that unlinking the
  temporary file and removing its directory do not throw, neither of them is on disk
  afterwards.
\<close>

theorem Windows_getImage_cleanup:
  assumes "mkdtemp env = Inr d"
    and "p = path_join d (''clipboard-'' @ randomHex env @ ''.png'')"
    and "fs' = snd (powershell env p (mkdirNode (disk env) d))"
    and "p \<notin> unlink_fails fs'" and "d \<notin> rmdir_fails fs'"
  shows "\<not> existsSync (snd (Windows_getImage env)) p \<and>
         \<not> existsSync (snd (Windows_getImage env)) d"
proof -
  let ?t = "\<lparr>filePath = p, dirPath = d\<rparr>"
  let ?fs = "mkdirNode (disk env) d"
  have tmp: "createTempFile env = Inr (?t, ?fs)"
    using assms(1,2) by (simp add: createTempFile_def)
  have "snd (Windows_getImage env) = dispose ?t (snd (Windows_getImage_try env ?t ?fs))"
    unfolding Windows_getImage_def tmp by (simp split: prod.splits)
  also have "snd (Windows_getImage_try env ?t ?fs) = fs'"
    unfolding Windows_getImage_try_disk assms(3) by (simp add: getPath_def)
  finally have "snd (Windows_getImage env) = dispose ?t fs'" .
  then show ?thesis
    using dispose_removes [of ?t fs'] assms(4,5) by simp
qed

theorem Windows_getImage_cleanup_witness:
  "\<not> existsSync (snd (Windows_getImage win_env_empty_file))
       (path_join ''T'' ''clipboard-00112233445566ff.png'') \<and>
   \<not> existsSync (snd (Windows_getImage win_env_empty_file)) ''T'' \<and>
   \<not> existsSync (snd (Windows_getImage win_env_no_image)) ''T'' \<and>
   \<not> existsSync (snd (Windows_getImage win_env_timeout)) ''T''"
  using Windows_getImage_cleanup [of win_env_empty_file "''T''"
      "path_join ''T'' ''clipboard-00112233445566ff.png''"
      "snd (script_saves [] (''success'' @ [CHR 0x0A])
         (path_join ''T'' ''clipboard-00112233445566ff.png'') (mkdirNode empty_disk ''T''))"]
    Windows_getImage_cleanup [of win_env_no_image "''T''"
      "path_join ''T'' ''clipboard-00112233445566ff.png''" "mkdirNode empty_disk ''T''"]
    Windows_getImage_cleanup [of win_env_timeout "''T''"
      "path_join ''T'' ''clipboard-00112233445566ff.png''" "mkdirNode empty_disk ''T''"]
  by (simp add: win_env_empty_file_def win_env_no_image_def win_env_timeout_def
      script_saves_def empty_disk_def mkdirNode_def)

section \<open>Properties of the retention policy\<close>

subsection \<open>Decimal numerals and the file-name pattern\<close>







lemma dot_not_digit: "\<not> isDigit CHR ''.''"
  by (simp add: isDigit_def)

lemma match_image_pattern:
  assumes "ds \<noteq> []" and "\<forall>c\<in>set ds. isDigit c"
  shows "match_image (''image_'' @ ds @ ''.'' @ rest) = Some ds"
proof -
  have t: "takeWhile isDigit (ds @ CHR ''.'' # rest) = ds"
    using assms(2) dot_not_digit by (simp add: takeWhile_tail)
  have d: "dropWhile isDigit (ds @ CHR ''.'' # rest) = CHR ''.'' # rest"
    using assms(2) dot_not_digit by (simp add: dropWhile_append3)
  show ?thesis
    using assms(1) by (simp add: match_image_def startsWith_def t d)
qed

lemma match_image_Some:
  assumes "match_image name = Some ds"
  shows "matches_image_pattern name ds"
proof -
  let ?rest = "drop 6 name"
  have sw: "startsWith name ''image_''"
    using assms by (simp add: match_image_def split: if_splits)
  have "length ''image_'' = 6" by simp
  with sw have tk: "take 6 name = ''image_''"
    unfolding startsWith_def by (simp only:)
  from assms sw have
    body: "(case dropWhile isDigit ?rest of
             [] \<Rightarrow> None
           | c # _ \<Rightarrow> if takeWhile isDigit ?rest \<noteq> [] \<and> c = CHR ''.''
                       then Some (takeWhile isDigit ?rest) else None) = Some ds"
    by (simp add: match_image_def Let_def)
  then obtain tl where
    dw: "dropWhile isDigit ?rest = CHR ''.'' # tl" and ds: "ds = takeWhile isDigit ?rest"
    and ne: "ds \<noteq> []"
    by (cases "dropWhile isDigit ?rest") (auto split: if_splits)
  have "name = take 6 name @ ?rest" by simp
  then have n1: "name = ''image_'' @ ?rest" unfolding tk .
  have "?rest = takeWhile isDigit ?rest @ dropWhile isDigit ?rest" by simp
  then have "?rest = ds @ ''.'' @ tl" unfolding dw ds by simp
  with n1 have "name = ''image_'' @ ds @ ''.'' @ tl" by simp
  moreover have "\<forall>c\<in>set ds. isDigit c"
    unfolding ds by (auto dest: set_takeWhileD)
  ultimately show ?thesis
    using ne unfolding matches_image_pattern_def by blast
qed

lemma parseInt_digits:
  assumes "ds \<noteq> []" and "\<forall>c\<in>set ds. isDigit c"
  shows "parseInt ds = Finite (real (decimal ds))"
proof -
  have tw: "takeWhile isDigit ds = ds" using assms(2) by simp
  show ?thesis unfolding parseInt_def Let_def tw using assms(1) by simp
qed

text \<open>\<open>isOldImageFile\<close> decides exactly the condition stated in words.\<close>

lemma isOldImageFile_iff:
  "isOldImageFile name cutoff \<longleftrightarrow>
     (\<exists>ds. matches_image_pattern name ds \<and> number_less (Finite (real (decimal ds))) cutoff)"
proof
  assume "isOldImageFile name cutoff"
  then obtain ds where m: "match_image name = Some ds" and l: "number_less (parseInt ds) cutoff"
    by (auto simp: isOldImageFile_def split: option.splits)
  from m have p: "matches_image_pattern name ds" by (rule match_image_Some)
  then have "parseInt ds = Finite (real (decimal ds))"
    by (simp add: matches_image_pattern_def parseInt_digits)
  with l p show "\<exists>ds. matches_image_pattern name ds \<and> number_less (Finite (real (decimal ds))) cutoff"
    by auto
next
  assume "\<exists>ds. matches_image_pattern name ds \<and> number_less (Finite (real (decimal ds))) cutoff"
  then obtain ds rest where ne: "ds \<noteq> []" and dg: "\<forall>c\<in>set ds. isDigit c"
    and nm: "name = ''image_'' @ ds @ ''.'' @ rest"
    and l: "number_less (Finite (real (decimal ds))) cutoff"
    unfolding matches_image_pattern_def by blast
  have "match_image name = Some ds" unfolding nm using ne dg by (rule match_image_pattern)
  moreover have "parseInt ds = Finite (real (decimal ds))" using ne dg by (rule parseInt_digits)
  ultimately show "isOldImageFile name cutoff"
    using l by (simp add: isOldImageFile_def)
qed

lemma toDelete_iff:
  "name \<in> set (toDelete cutoff files) \<longleftrightarrow>
     (name, File) \<in> set files \<and> deletable_entry cutoff (name, File)"
proof -
  have "set (toDelete cutoff files) =
        {n. (n, File) \<in> set files \<and> n \<noteq> ''.gitignore'' \<and> isOldImageFile n cutoff}"
    unfolding toDelete_def by (induction files) auto
  then show ?thesis
    by (simp add: deletable_entry_def isOldImageFile_iff)
qed

lemma deleteCalls_subset:
  "listing dir = Inr files \<Longrightarrow>
   set (deleteCalls rd now dir) \<subseteq> set (toDelete (cutoffTime rd now) files)"
  by (simp add: deleteCalls_def)

lemma cleanupOldImages_unreadable:
  "listing dir = Inl e \<Longrightarrow> cleanupOldImages rd now dir = dir \<and> deleteCalls rd now dir = []"
  by (simp add: cleanupOldImages_def deleteCalls_def)

text \<open>An entry disappears only if its name was handed to \<open>fs.delete\<close>.\<close>

lemma cleanupOldImages_listing:
  assumes "listing dir = Inr files"
  shows "listing (cleanupOldImages rd now dir) =
           Inr (filter (\<lambda>(fileName, fileType).
             \<not> (fileName \<in> set (deleteCalls rd now dir) \<and> fileName \<notin> delete_fails dir)) files)"
  using assms by (simp add: cleanupOldImages_def deleteCalls_def Let_def)

subsection \<open>The scenario with an old and a fresh file\<close>







subsection \<open>The validated retention period\<close>

lemma validateRetentionDays_range:
  "\<exists>k::nat. validateRetentionDays v = Finite (real k) \<and> k \<le> 365"
proof (cases "\<exists>r. v = Number (Finite r) \<and> 0 < r \<and> r \<le> 365")
  case True
  then obtain r where v: "v = Number (Finite r)" and r: "0 < r" "r \<le> 365" by blast
  define k where "k = \<lfloor>r\<rfloor>"
  have "0 \<le> k" using r by (simp add: k_def)
  moreover have "k \<le> 365" using r by (simp add: k_def floor_le_iff)
  ultimately have "real (nat k) = of_int k \<and> nat k \<le> 365" by simp
  moreover have "validateRetentionDays v = Finite (of_int k)"
    using v r by (simp add: validateRetentionDays_def number_le_def k_def)
  ultimately show ?thesis
    by (intro exI [of _ "nat k"]) simp
next
  case False
  then have "validateRetentionDays v = Finite 30"
    by (cases v; cases "case v of Number n \<Rightarrow> n | _ \<Rightarrow> NaN")
       (auto simp: validateRetentionDays_def defaults_retentionDays_def number_le_def)
  then show ?thesis by (intro exI [of _ 30]) simp
qed

text \<open>The result is 0 exactly for the numbers strictly between 0 and 1.\<close>

lemma validateRetentionDays_zero_iff:
  "validateRetentionDays v = Finite 0 \<longleftrightarrow> (\<exists>r. v = Number (Finite r) \<and> 0 < r \<and> r < 1)"
proof (cases v)
  case (Number n)
  then show ?thesis
    by (cases n)
       (auto simp: validateRetentionDays_def defaults_retentionDays_def number_le_def
          floor_eq_iff)
qed (simp_all add: validateRetentionDays_def defaults_retentionDays_def)

lemma getRetentionDays_zero_configured:
  "getRetentionDays (\<lambda>key. Number (Finite 0)) = Finite 30"
  by (simp add: getRetentionDays_def validateRetentionDays_def defaults_retentionDays_def)

text \<open>
  C9. Claimed: \<open>getRetentionDays\<close> returns an integer from 1 to 365 for every raw
  value and never 0. For the configured value 0.5 the range test \<open>value > 0\<close> passes
  before \<open>Math.floor\<close>, so \<open>getRetentionDays\<close> returns 0: a value that
  \<open>isValidRetentionDays\<close> of the same file rejects, and on which \<open>cleanupOldImages\<close>
  deletes nothing.
\<close>

theorem getRetentionDays_returns_zero:
  "getRetentionDays config_half_day = Finite 0 \<and>
   \<not> isValidRetentionDays (getRetentionDays config_half_day) \<and>
   deleteCalls (getRetentionDays config_half_day) 1700000000000
     (retention_scenario 1700000000000) = []"
  by (simp add: getRetentionDays_def config_half_day_def validateRetentionDays_def
      number_le_def isValidRetentionDays_def deleteCalls_def)

subsection \<open>What the cleanup may delete\<close>

text \<open>
  C10. For every retention value and every directory listing (names distinct, as in a
  directory), \<open>cleanupOldImages\<close> asks for the deletion only of entries that are plain
  files, are not named \<open>.gitignore\<close>, and whose name matches \<open>image_<digits>.\<close> with the
  parsed timestamp strictly below the cutoff; every other entry is still in the directory
  afterwards, and no entry is added.
\<close>

theorem cleanupOldImages_frame:
  assumes "listing dir = Inr files" and "distinct (map fst files)"
  shows "(\<forall>name\<in>set (deleteCalls rd now dir).
            (name, File) \<in> set files \<and> deletable_entry (cutoffTime rd now) (name, File)) \<and>
         (\<exists>files'. listing (cleanupOldImages rd now dir) = Inr files' \<and>
            set files' \<subseteq> set files \<and>
            (\<forall>e\<in>set files. e \<in> set files' \<or> deletable_entry (cutoffTime rd now) e))"
proof (intro conjI ballI)
  fix name assume "name \<in> set (deleteCalls rd now dir)"
  with assms(1) have "name \<in> set (toDelete (cutoffTime rd now) files)"
    using deleteCalls_subset by blast
  then show "(name, File) \<in> set files" and "deletable_entry (cutoffTime rd now) (name, File)"
    by (simp_all add: toDelete_iff)
next
  let ?keep = "\<lambda>(fileName, fileType).
        \<not> (fileName \<in> set (deleteCalls rd now dir) \<and> fileName \<notin> delete_fails dir)"
  let ?files' = "filter ?keep files"
  have l: "listing (cleanupOldImages rd now dir) = Inr ?files'"
    using assms(1) by (rule cleanupOldImages_listing)
  have gone: "e \<in> set ?files' \<or> deletable_entry (cutoffTime rd now) e"
    if e: "e \<in> set files" for e
  proof (cases "e \<in> set ?files'")
    case True
    then show ?thesis by simp
  next
    case False
    obtain n t where nt: "e = (n, t)" by (cases e)
    from False e nt have "n \<in> set (deleteCalls rd now dir)" by auto
    with assms(1) have "n \<in> set (toDelete (cutoffTime rd now) files)"
      using deleteCalls_subset by blast
    then have f: "(n, File) \<in> set files" and d: "deletable_entry (cutoffTime rd now) (n, File)"
      by (simp_all add: toDelete_iff)
    from assms(2) f e nt have "t = File"
      by (meson eq_key_imp_eq_value)
    with d nt show ?thesis by simp
  qed
  show "\<exists>files'. listing (cleanupOldImages rd now dir) = Inr files' \<and>
            set files' \<subseteq> set files \<and>
            (\<forall>e\<in>set files. e \<in> set files' \<or> deletable_entry (cutoffTime rd now) e)"
    using l gone by (intro exI [of _ ?files']) auto
qed

theorem cleanupOldImages_frame_witness:
  "deletable_entry (cutoffTime (Finite 30) 1700000000000) (''image_1000.png'', File) \<and>
   (\<exists>files'. listing (cleanupOldImages (Finite 30) 1700000000000 example_dir) = Inr files' \<and>
      (''.gitignore'', File) \<in> set files' \<and>
      (''image_2000.png'', Directory) \<in> set files' \<and>
      (''notes.txt'', File) \<in> set files')"
proof -
  let ?files = "[(''.gitignore'', File), (''image_1000.png'', File),
                 (''image_2000.png'', Directory), (''notes.txt'', File)]"
  let ?c = "cutoffTime (Finite 30) 1700000000000"
  have a: "listing example_dir = Inr ?files" by (simp add: example_dir_def)
  have b: "distinct (map fst ?files)" by simp
  note t = cleanupOldImages_frame [OF a b, of "Finite 30" 1700000000000]
  have m: "''image_1000.png'' \<in> set (deleteCalls (Finite 30) 1700000000000 example_dir)"
    by (simp add: deleteCalls_def example_dir_def toDelete_def isOldImageFile_def
        match_image_def startsWith_def isDigit_def parseInt_def decimal_def digitValue_def
        cutoffTime_def)
  have n1: "\<not> deletable_entry ?c (''.gitignore'', File)"
    by (simp add: deletable_entry_def)
  have n2: "\<not> deletable_entry ?c (''image_2000.png'', Directory)"
    by (simp add: deletable_entry_def)
  have n3: "\<not> deletable_entry ?c (''notes.txt'', File)"
    by (simp add: deletable_entry_def matches_image_pattern_def)
  from t m have "deletable_entry ?c (''image_1000.png'', File)" by blast
  moreover from t obtain files' where
    l: "listing (cleanupOldImages (Finite 30) 1700000000000 example_dir) = Inr files'"
    and f: "\<forall>e\<in>set ?files. e \<in> set files' \<or> deletable_entry ?c e"
    by blast
  from f n1 n2 n3 have "(''.gitignore'', File) \<in> set files' \<and>
      (''image_2000.png'', Directory) \<in> set files' \<and> (''notes.txt'', File) \<in> set files'"
    by simp
  ultimately show ?thesis using l by blast
qed

end
